theory Spec2Isabelle
  imports Complex_Main "HOL-Library.Signed_Division"
begin

section \<open>JavaScript values used by the player\<close>

text \<open>
  Numbers are modelled exactly: byte offsets, sizes, indices and status codes are
  integers, durations and playback positions are reals. NaN, infinities and rounding
  are not represented. A template literal renders an integer in decimal, with a
  leading minus sign when it is negative.
\<close>

definition digit_char :: "nat \<Rightarrow> char" where
  "digit_char d = ''0123456789'' ! d"

definition digit_value :: "char \<Rightarrow> nat" where
  "digit_value c = of_char c - 48"

definition is_digit :: "char \<Rightarrow> bool" where
  "is_digit c = (c \<in> set ''0123456789'')"

fun show_nat :: "nat \<Rightarrow> string" where
  "show_nat n =
     (if n < 10 then [digit_char n] else show_nat (n div 10) @ [digit_char (n mod 10)])"

declare show_nat.simps [simp del]

definition show_int :: "int \<Rightarrow> string" where
  "show_int i = (if i < 0 then CHR ''-'' # show_nat (nat (- i)) else show_nat (nat i))"

definition read_nat :: "string \<Rightarrow> nat" where
  "read_nat cs = foldl (\<lambda>acc c. 10 * acc + digit_value c) 0 cs"

text \<open>
  A thrown value is either an \<^verbatim>\<open>Error\<close> built by the code with a message, or the
  \<^verbatim>\<open>TypeError\<close> with which \<^verbatim>\<open>fetch\<close> rejects when the network fails.
  \<open>error_string\<close> is what a template literal makes of it.
\<close>

datatype js_error = JsError string | TypeError string

definition error_string :: "js_error \<Rightarrow> string" where
  "error_string e =
     (case e of JsError m \<Rightarrow> ''Error: '' @ m | TypeError m \<Rightarrow> ''TypeError: '' @ m)"

definition startsWith :: "string \<Rightarrow> string \<Rightarrow> bool" where
  "startsWith s p = (take (length p) s = p)"

section \<open>The network boundary\<close>

datatype http_method = GET | HEAD

record request =
  req_method :: http_method
  req_url :: string
  req_range :: "string option"

text \<open>
  A response carries its status, the three headers the fetcher reads and its body.
  The \<^verbatim>\<open>content-length\<close> header is a decimal numeral when present, so it is kept as
  the number \<^verbatim>\<open>parseInt\<close> reads from it.
\<close>

record response =
  status :: nat
  content_length :: "nat option"
  content_type :: "string option"
  accept_ranges :: "string option"
  body :: "nat list"

definition ok :: "response \<Rightarrow> bool" where
  "ok r = (200 \<le> status r \<and> status r \<le> 299)"

text \<open>
  The environment: the server answers a request, possibly depending on the requests
  made before it, or the transport fails. The browser may have no \<^verbatim>\<open>AudioContext\<close>
  to construct; when it has one, \<^verbatim>\<open>decodeAudioData\<close> on a byte prefix gives a buffer
  with a duration, or returns a promise that rejects, or throws at the call. The body
  of a response that arrived can be read.
\<close>

datatype decoded = Decoded real | DecodeRejected | DecodeThrew js_error

record env =
  server :: "request list \<Rightarrow> request \<Rightarrow> js_error + response"
  audioContext :: bool
  decodeAudioData :: "nat list \<Rightarrow> decoded"

section \<open>AudioFetcher\<close>

record AudioMetadata =
  md_duration :: real
  md_size :: int
  md_contentType :: string
  md_acceptRanges :: bool

record RangeRequest =
  range_start :: int
  range_end :: "int option"

type_synonym blob = "nat list \<times> string"

record fetcher =
  baseUrl :: string
  cache :: "string \<rightharpoonup> AudioMetadata"
  requests :: "request list"
  objectURLs :: "blob list"

definition new_fetcher :: "string \<Rightarrow> fetcher" where
  "new_fetcher b = \<lparr>baseUrl = b, cache = Map.empty, requests = [], objectURLs = []\<rparr>"

definition audioFetcher :: fetcher where
  "audioFetcher = new_fetcher ''/api/audio''"

definition resource_url :: "fetcher \<Rightarrow> string \<Rightarrow> string" where
  "resource_url f audioPath = baseUrl f @ ''/'' @ audioPath"

definition fetch :: "env \<Rightarrow> fetcher \<Rightarrow> request \<Rightarrow> (js_error + response) \<times> fetcher" where
  "fetch e f req = (server e (requests f) req, f\<lparr>requests := requests f @ [req]\<rparr>)"

text \<open>\<^verbatim>\<open>URL.createObjectURL\<close>: a fresh local URL for the blob, beginning \<^verbatim>\<open>blob:\<close>.\<close>

definition createObjectURL :: "fetcher \<Rightarrow> blob \<Rightarrow> string \<times> fetcher" where
  "createObjectURL f b =
     (''blob:'' @ show_nat (length (objectURLs f)), f\<lparr>objectURLs := objectURLs f @ [b]\<rparr>)"

definition rangeHeader :: "RangeRequest \<Rightarrow> string" where
  "rangeHeader rng =
     (case range_end rng of
        Some e \<Rightarrow>
          if e \<noteq> 0 then ''bytes='' @ show_int (range_start rng) @ ''-'' @ show_int e
          else ''bytes='' @ show_int (range_start rng) @ ''-''
      | None \<Rightarrow> ''bytes='' @ show_int (range_start rng) @ ''-'')"

definition fetchRange ::
  "env \<Rightarrow> fetcher \<Rightarrow> string \<Rightarrow> RangeRequest \<Rightarrow> (js_error + response) \<times> fetcher" where
  "fetchRange e f audioPath rng =
     (case fetch e f \<lparr>req_method = GET, req_url = resource_url f audioPath,
                      req_range = Some (rangeHeader rng)\<rparr> of
        (Inl err, f1) \<Rightarrow> (Inl err, f1)
      | (Inr r, f1) \<Rightarrow>
          if status r \<noteq> 206 \<and> status r \<noteq> 200
          then (Inl (JsError (''Range request failed: '' @ show_nat (status r))), f1)
          else (Inr r, f1))"

definition estimateDurationFromSize :: "env \<Rightarrow> fetcher \<Rightarrow> string \<Rightarrow> real \<times> fetcher" where
  "estimateDurationFromSize e f audioPath =
     (case fetch e f \<lparr>req_method = HEAD, req_url = resource_url f audioPath,
                      req_range = None\<rparr> of
        (Inl err, f1) \<Rightarrow> (0, f1)
      | (Inr r, f1) \<Rightarrow>
          (case content_length r of
             Some sizeInBytes \<Rightarrow> (real sizeInBytes * 8 / (128 * 1000), f1)
           | None \<Rightarrow> (0, f1)))"

text \<open>
  \<open>getAudioDuration\<close> catches what is thrown up to and including the construction of
  the \<^verbatim>\<open>AudioContext\<close> and returns 0 for it. What the returned promise does is outside
  that \<^verbatim>\<open>try\<close>: a decoder that throws at the call makes the promise, and with it
  \<open>getAudioDuration\<close>, reject.
\<close>

definition getAudioDuration ::
  "env \<Rightarrow> fetcher \<Rightarrow> string \<Rightarrow> (js_error + real) \<times> fetcher" where
  "getAudioDuration e f audioPath =
     (case fetchRange e f audioPath \<lparr>range_start = 0, range_end = Some (1024 * 1024)\<rparr> of
        (Inl err, f1) \<Rightarrow> (Inr 0, f1)
      | (Inr r, f1) \<Rightarrow>
          if \<not> ok r then (Inr 0, f1)
          else if \<not> audioContext e then (Inr 0, f1)
          else (case decodeAudioData e (body r) of
                  Decoded d \<Rightarrow> (Inr d, f1)
                | DecodeRejected \<Rightarrow>
                    (case estimateDurationFromSize e f1 audioPath of (d, f2) \<Rightarrow> (Inr d, f2))
                | DecodeThrew err \<Rightarrow> (Inl err, f1)))"

definition cacheKey :: "string \<Rightarrow> string" where
  "cacheKey audioPath = ''metadata:'' @ audioPath"

text \<open>The metadata object built from the headers of the probe's response and the duration.\<close>

definition metadata_of :: "response \<Rightarrow> real \<Rightarrow> AudioMetadata" where
  "metadata_of r d =
     \<lparr>md_duration = d,
      md_size = (case content_length r of Some n \<Rightarrow> int n | None \<Rightarrow> 0),
      md_contentType =
        (case content_type r of
           Some t \<Rightarrow> if t = [] then ''audio/mpeg'' else t
         | None \<Rightarrow> ''audio/mpeg''),
      md_acceptRanges = (accept_ranges r = Some ''bytes'')\<rparr>"

text \<open>
  \<open>getMetadata\<close> run from its call to its return with nothing else running in between.
\<close>

definition getMetadata ::
  "env \<Rightarrow> fetcher \<Rightarrow> string \<Rightarrow> (js_error + AudioMetadata) \<times> fetcher" where
  "getMetadata e f audioPath =
     (case cache f (cacheKey audioPath) of
        Some m \<Rightarrow> (Inr m, f)
      | None \<Rightarrow>
          (case fetch e f \<lparr>req_method = HEAD, req_url = resource_url f audioPath,
                           req_range = Some ''bytes=0-1''\<rparr> of
             (Inl err, f1) \<Rightarrow> (Inl err, f1)
           | (Inr r, f1) \<Rightarrow>
               if \<not> ok r
               then (Inl (JsError (''Failed to fetch metadata: '' @ show_nat (status r))), f1)
               else
                 (case getAudioDuration e f1 audioPath of
                    (Inl err, f2) \<Rightarrow> (Inl err, f2)
                  | (Inr d, f2) \<Rightarrow>
                      let metadata = metadata_of r d
                      in (Inr metadata,
                          f2\<lparr>cache := (cache f2)(cacheKey audioPath \<mapsto> metadata)\<rparr>))))"

definition createRangeBlob ::
  "env \<Rightarrow> fetcher \<Rightarrow> string \<Rightarrow> RangeRequest \<Rightarrow> (js_error + string) \<times> fetcher" where
  "createRangeBlob e f audioPath rng =
     (case fetchRange e f audioPath rng of
        (Inl err, f1) \<Rightarrow> (Inl err, f1)
      | (Inr r, f1) \<Rightarrow>
          (case createObjectURL f1 (body r, case content_type r of Some t \<Rightarrow> t | None \<Rightarrow> [])
           of (u, f2) \<Rightarrow> (Inr u, f2)))"

definition createStreamingBlob ::
  "env \<Rightarrow> fetcher \<Rightarrow> string \<Rightarrow> (js_error + string) \<times> fetcher" where
  "createStreamingBlob e f audioPath =
     (case getMetadata e f audioPath of
        (Inl err, f1) \<Rightarrow> (Inl err, f1)
      | (Inr metadata, f1) \<Rightarrow>
          if \<not> md_acceptRanges metadata then
            (case fetch e f1 \<lparr>req_method = GET, req_url = resource_url f1 audioPath,
                              req_range = None\<rparr> of
               (Inl err, f2) \<Rightarrow> (Inl err, f2)
             | (Inr r, f2) \<Rightarrow>
                 (case createObjectURL f2
                         (body r, case content_type r of Some t \<Rightarrow> t | None \<Rightarrow> [])
                  of (u, f3) \<Rightarrow> (Inr u, f3)))
          else
            (case createObjectURL f1 ([], md_contentType metadata)
             of (u, f2) \<Rightarrow> (Inr u, f2)))"

definition audioFetcher_preloadRange ::
  "env \<Rightarrow> fetcher \<Rightarrow> string \<Rightarrow> RangeRequest \<Rightarrow> (js_error + nat list) \<times> fetcher" where
  "audioFetcher_preloadRange e f audioPath rng =
     (case fetchRange e f audioPath rng of
        (Inl err, f1) \<Rightarrow> (Inl err, f1)
      | (Inr r, f1) \<Rightarrow> (Inr (body r), f1))"

definition clearCache :: "fetcher \<Rightarrow> fetcher" where
  "clearCache f = f\<lparr>cache := Map.empty\<rparr>"

subsection \<open>Calls of getMetadata that overlap\<close>

text \<open>
  \<open>getMetadata\<close> is an async function: it checks the cache and sends the probe when
  it is called, and then waits, for the probe's response, for the response to the
  range request of \<open>getAudioDuration\<close>, and after a rejected decode for the response to
  the request of \<open>estimateDurationFromSize\<close>. While it waits, other calls start and
  continue. A call that waits is kept with the answer the server gave to its request.
  The waits on the body and on the decoder touch nothing shared and are part of the
  step that follows them.
\<close>

datatype inflight =
    AwaitProbe string "js_error + response"
  | AwaitRange string response "js_error + response"
  | AwaitEstimate string response "js_error + response"

fun inflight_path :: "inflight \<Rightarrow> string" where
  "inflight_path (AwaitProbe p res) = p"
| "inflight_path (AwaitRange p r res) = p"
| "inflight_path (AwaitEstimate p r res) = p"

datatype progress = Return "js_error + AudioMetadata" | Suspend inflight

text \<open>The end of a call that has its duration: the entry is set, whatever the cache holds.\<close>

definition finish :: "fetcher \<Rightarrow> string \<Rightarrow> response \<Rightarrow> real \<Rightarrow> progress \<times> fetcher" where
  "finish f audioPath r d =
     (let metadata = metadata_of r d
      in (Return (Inr metadata), f\<lparr>cache := (cache f)(cacheKey audioPath \<mapsto> metadata)\<rparr>))"

fun resume :: "env \<Rightarrow> fetcher \<Rightarrow> inflight \<Rightarrow> progress \<times> fetcher" where
  "resume e f (AwaitProbe audioPath res) =
     (case res of
        Inl err \<Rightarrow> (Return (Inl err), f)
      | Inr r \<Rightarrow>
          if \<not> ok r
          then (Return (Inl (JsError (''Failed to fetch metadata: '' @ show_nat (status r)))), f)
          else
            (case fetch e f \<lparr>req_method = GET, req_url = resource_url f audioPath,
                             req_range = Some (rangeHeader \<lparr>range_start = 0,
                                                            range_end = Some (1024 * 1024)\<rparr>)\<rparr>
             of (res2, f1) \<Rightarrow> (Suspend (AwaitRange audioPath r res2), f1)))"
| "resume e f (AwaitRange audioPath r res2) =
     (case res2 of
        Inl err \<Rightarrow> finish f audioPath r 0
      | Inr r2 \<Rightarrow>
          if status r2 \<noteq> 206 \<and> status r2 \<noteq> 200 then finish f audioPath r 0
          else if \<not> ok r2 then finish f audioPath r 0
          else if \<not> audioContext e then finish f audioPath r 0
          else (case decodeAudioData e (body r2) of
                  Decoded d \<Rightarrow> finish f audioPath r d
                | DecodeRejected \<Rightarrow>
                    (case fetch e f \<lparr>req_method = HEAD, req_url = resource_url f audioPath,
                                     req_range = None\<rparr>
                     of (res3, f1) \<Rightarrow> (Suspend (AwaitEstimate audioPath r res3), f1))
                | DecodeThrew err \<Rightarrow> (Return (Inl err), f)))"
| "resume e f (AwaitEstimate audioPath r res3) =
     finish f audioPath r
       (case res3 of
          Inl err \<Rightarrow> 0
        | Inr r3 \<Rightarrow>
            (case content_length r3 of
               Some sizeInBytes \<Rightarrow> real sizeInBytes * 8 / (128 * 1000)
             | None \<Rightarrow> 0))"

text \<open>A call continued until it returns; three steps are enough.\<close>

fun drive :: "nat \<Rightarrow> env \<Rightarrow> fetcher \<Rightarrow> inflight \<Rightarrow> ((js_error + AudioMetadata) \<times> fetcher) option" where
  "drive 0 e f c = None"
| "drive (Suc n) e f c =
     (case resume e f c of
        (Return res, f1) \<Rightarrow> Some (res, f1)
      | (Suspend c1, f1) \<Rightarrow> drive n e f1 c1)"

text \<open>
  A session of the fetcher: the fetcher, the calls of \<open>getMetadata\<close> that wait, and
  what the calls returned so far, in order. Its events are a call of \<open>getMetadata\<close>,
  one more step of a waiting call, any other request (those of \<open>fetchRange\<close>, of
  \<open>preloadRange\<close>, of \<open>createRangeBlob\<close> and the full fetch of \<open>createStreamingBlob\<close>
  touch the cache no more than by being sent), and \<open>clearCache\<close>.
\<close>

record session =
  the_fetcher :: fetcher
  inflight :: "inflight list"
  returned :: "(string \<times> (js_error + AudioMetadata)) list"

datatype session_event =
    CallGetMetadata string
  | Resume nat
  | SendRequest request
  | CallClearCache

fun is_clear :: "session_event \<Rightarrow> bool" where
  "is_clear CallClearCache = True"
| "is_clear _ = False"

definition getMetadata_call :: "env \<Rightarrow> session \<Rightarrow> string \<Rightarrow> session" where
  "getMetadata_call e s audioPath =
     (case cache (the_fetcher s) (cacheKey audioPath) of
        Some m \<Rightarrow> s\<lparr>returned := returned s @ [(audioPath, Inr m)]\<rparr>
      | None \<Rightarrow>
          (case fetch e (the_fetcher s)
                  \<lparr>req_method = HEAD, req_url = resource_url (the_fetcher s) audioPath,
                   req_range = Some ''bytes=0-1''\<rparr>
           of (res, f1) \<Rightarrow>
             s\<lparr>the_fetcher := f1, inflight := inflight s @ [AwaitProbe audioPath res]\<rparr>))"

definition resume_call :: "env \<Rightarrow> session \<Rightarrow> nat \<Rightarrow> session" where
  "resume_call e s i =
     (if i < length (inflight s)
      then (case resume e (the_fetcher s) (inflight s ! i) of
              (Return res, f1) \<Rightarrow>
                s\<lparr>the_fetcher := f1,
                  inflight := take i (inflight s) @ drop (Suc i) (inflight s),
                  returned := returned s @ [(inflight_path (inflight s ! i), res)]\<rparr>
            | (Suspend c, f1) \<Rightarrow>
                s\<lparr>the_fetcher := f1, inflight := (inflight s)[i := c]\<rparr>)
      else s)"

fun session_step :: "env \<Rightarrow> session \<Rightarrow> session_event \<Rightarrow> session" where
  "session_step e s (CallGetMetadata p) = getMetadata_call e s p"
| "session_step e s (Resume i) = resume_call e s i"
| "session_step e s (SendRequest q) = s\<lparr>the_fetcher := snd (fetch e (the_fetcher s) q)\<rparr>"
| "session_step e s CallClearCache = s\<lparr>the_fetcher := clearCache (the_fetcher s)\<rparr>"

fun session_run :: "env \<Rightarrow> session \<Rightarrow> session_event list \<Rightarrow> session" where
  "session_run e s [] = s"
| "session_run e s (ev # evs) = session_run e (session_step e s ev) evs"

definition new_session :: session where
  "new_session = \<lparr>the_fetcher = audioFetcher, inflight = [], returned = []\<rparr>"

section \<open>useRangeAudioPlayer\<close>

text \<open>
  The native audio element: the fields the hook reads and writes, and the calls it makes.
\<close>

datatype audio_call = Load | Play | Pause

record audio =
  src :: string
  currentTime :: real
  audio_volume :: real
  audio_calls :: "audio_call list"

definition new_Audio :: audio where
  "new_Audio = \<lparr>src = [], currentTime = 0, audio_volume = 1, audio_calls = []\<rparr>"

record byte_range =
  r_start :: int
  r_end :: int

text \<open>
  An async function of the hook stops at each \<^verbatim>\<open>await\<close>; what is left of it waits in
  \<open>pending\<close> until the awaited promise settles. A task names the promise awaited and
  the track path the suspended function was called with.
\<close>

datatype task =
    LoadAwaitMetadata string
  | LoadAwaitBlob string
  | PreloadAwait string byte_range
  | PlayAwait

datatype outcome =
    Rejected js_error
  | GotMetadata AudioMetadata
  | GotBlob string
  | GotBuffer "nat list"
  | Played

record player =
  currentTrack :: int
  isPlaying :: bool
  volume :: real
  duration :: real
  seek :: real
  isLoading :: bool
  error :: "string option"
  audioRef :: "audio option"
  metadataRef :: "AudioMetadata option"
  preloadedRanges :: "string set"
  pending :: "task list"
  revoked :: "string list"

definition initial_player :: player where
  "initial_player =
     \<lparr>currentTrack = 0, isPlaying = False, volume = 1, duration = 0, seek = 0,
      isLoading = False, error = None, audioRef = None, metadataRef = None,
      preloadedRanges = {}, pending = [], revoked = []\<rparr>"

text \<open>\<^verbatim>\<open>tracks[i]\<close> inside a template literal or as a path: out of range it reads \<^verbatim>\<open>undefined\<close>.\<close>

definition track_at :: "string list \<Rightarrow> int \<Rightarrow> string" where
  "track_at tracks i =
     (if 0 \<le> i \<and> i < int (length tracks) then tracks ! nat i else ''undefined'')"

definition rangeKey :: "string \<Rightarrow> byte_range \<Rightarrow> string" where
  "rangeKey trackPath rng =
     trackPath @ '':'' @ show_int (r_start rng) @ ''-'' @ show_int (r_end rng)"

definition preloaded_has :: "player \<Rightarrow> string \<Rightarrow> byte_range \<Rightarrow> bool" where
  "preloaded_has s trackPath rng = (rangeKey trackPath rng \<in> preloadedRanges s)"

definition preloaded_add :: "player \<Rightarrow> string \<Rightarrow> byte_range \<Rightarrow> player" where
  "preloaded_add s trackPath rng =
     s\<lparr>preloadedRanges := insert (rangeKey trackPath rng) (preloadedRanges s)\<rparr>"

text \<open>\<^verbatim>\<open>preloadRange\<close> up to its \<^verbatim>\<open>await\<close>, and its continuation once the fetch settles.\<close>

definition preloadRange :: "player \<Rightarrow> string \<Rightarrow> byte_range \<Rightarrow> player" where
  "preloadRange s trackPath rng =
     (if preloaded_has s trackPath rng then s
      else s\<lparr>pending := pending s @ [PreloadAwait trackPath rng]\<rparr>)"

definition preloadRange_settled ::
  "player \<Rightarrow> string \<Rightarrow> byte_range \<Rightarrow> js_error + nat list \<Rightarrow> player" where
  "preloadRange_settled s trackPath rng res =
     (case res of
        Inl err \<Rightarrow> s
      | Inr buffer \<Rightarrow> preloaded_add s trackPath rng)"

text \<open>
  \<^verbatim>\<open>loadTrack\<close> in three parts: up to \<^verbatim>\<open>await getMetadata\<close>, from there to
  \<^verbatim>\<open>await createStreamingBlob\<close>, and the rest. \<open>loadTrack_catch\<close> is its catch block.
\<close>

definition loadTrack :: "player \<Rightarrow> string \<Rightarrow> player" where
  "loadTrack s trackPath =
     (case audioRef s of
        None \<Rightarrow> s
      | Some a \<Rightarrow>
          s\<lparr>isLoading := True, error := None, seek := 0,
            pending := pending s @ [LoadAwaitMetadata trackPath]\<rparr>)"

definition loadTrack_catch :: "player \<Rightarrow> js_error \<Rightarrow> player" where
  "loadTrack_catch s err =
     s\<lparr>error := Some (''Failed to load track: '' @ error_string err), isLoading := False\<rparr>"

definition loadTrack_metadata ::
  "player \<Rightarrow> string \<Rightarrow> js_error + AudioMetadata \<Rightarrow> player" where
  "loadTrack_metadata s trackPath res =
     (case res of
        Inl err \<Rightarrow> loadTrack_catch s err
      | Inr metadata \<Rightarrow>
          s\<lparr>metadataRef := Some metadata, duration := md_duration metadata,
            pending := pending s @ [LoadAwaitBlob trackPath]\<rparr>)"

definition loadTrack_blob :: "player \<Rightarrow> string \<Rightarrow> js_error + string \<Rightarrow> player" where
  "loadTrack_blob s trackPath res =
     (case res of
        Inl err \<Rightarrow> loadTrack_catch s err
      | Inr blobUrl \<Rightarrow>
          (case audioRef s of
             None \<Rightarrow> loadTrack_catch s (TypeError ''Cannot read properties of null'')
           | Some a \<Rightarrow>
               let s1 = (if src a \<noteq> [] \<and> startsWith (src a) ''blob:''
                         then s\<lparr>revoked := revoked s @ [src a]\<rparr> else s);
                   s2 = s1\<lparr>audioRef :=
                          Some (a\<lparr>src := blobUrl, audio_calls := audio_calls a @ [Load]\<rparr>)\<rparr>
               in preloadRange s2 trackPath \<lparr>r_start = 0, r_end = 1024 * 1024\<rparr>))"

definition handlePlayPause :: "player \<Rightarrow> player" where
  "handlePlayPause s =
     (case audioRef s of
        None \<Rightarrow> s
      | Some a \<Rightarrow>
          if isPlaying s
          then s\<lparr>audioRef := Some (a\<lparr>audio_calls := audio_calls a @ [Pause]\<rparr>),
                 isPlaying := False\<rparr>
          else s\<lparr>audioRef := Some (a\<lparr>audio_calls := audio_calls a @ [Play]\<rparr>),
                 pending := pending s @ [PlayAwait], isPlaying := True\<rparr>)"

definition play_catch :: "player \<Rightarrow> js_error \<Rightarrow> player" where
  "play_catch s err = s\<lparr>error := Some (''Playback error: '' @ error_string err)\<rparr>"

text \<open>
  The remainder operator \<^verbatim>\<open>%\<close> truncates towards zero (\<open>smod\<close>). With an empty track
  list JavaScript yields NaN, which the model does not represent.
\<close>

definition handleNext :: "string list \<Rightarrow> player \<Rightarrow> player" where
  "handleNext tracks s =
     s\<lparr>currentTrack := (currentTrack s + 1) smod int (length tracks), isPlaying := True\<rparr>"

definition handlePrev :: "string list \<Rightarrow> player \<Rightarrow> player" where
  "handlePrev tracks s =
     s\<lparr>currentTrack :=
          (if currentTrack s = 0 then int (length tracks) - 1 else currentTrack s - 1),
       isPlaying := True\<rparr>"

definition handleSeek :: "string list \<Rightarrow> player \<Rightarrow> real \<Rightarrow> player" where
  "handleSeek tracks s newSeek =
     (case audioRef s of
        None \<Rightarrow> s
      | Some a \<Rightarrow>
          (case metadataRef s of
             None \<Rightarrow> s
           | Some metadata \<Rightarrow>
               let seekTime = max 0 (min newSeek (duration s));
                   seekPosition = \<lfloor>seekTime\<rfloor>;
                   rangeStart = max 0 (seekPosition * 1024 * 1024 - 512 * 1024);
                   rangeEnd = min (md_size metadata)
                                  (seekPosition * 1024 * 1024 + 1024 * 1024);
                   s1 = preloadRange s (track_at tracks (currentTrack s))
                          \<lparr>r_start = rangeStart, r_end = rangeEnd\<rparr>
               in s1\<lparr>audioRef := Some (a\<lparr>currentTime := seekTime\<rparr>), seek := seekTime\<rparr>))"

text \<open>
  The same two handlers of \<^verbatim>\<open>useAudioPlayer\<close>, on the two state variables they set.
\<close>

record basic_player =
  bp_currentTrack :: int
  bp_isPlaying :: bool

definition useAudioPlayer_handleNext :: "string list \<Rightarrow> basic_player \<Rightarrow> basic_player" where
  "useAudioPlayer_handleNext tracks s =
     s\<lparr>bp_currentTrack := (bp_currentTrack s + 1) smod int (length tracks),
       bp_isPlaying := True\<rparr>"

definition useAudioPlayer_handlePrev :: "string list \<Rightarrow> basic_player \<Rightarrow> basic_player" where
  "useAudioPlayer_handlePrev tracks s =
     s\<lparr>bp_currentTrack :=
          (if bp_currentTrack s = 0 then int (length tracks) - 1 else bp_currentTrack s - 1),
       bp_isPlaying := True\<rparr>"

subsection \<open>Events and renders\<close>

text \<open>
  What can happen to the mounted hook: the first render with its effects, a user
  action, the settling of a pending promise (chosen by its position in \<open>pending\<close>, so
  promises settle in any order), or an event of the audio element. State updates of
  one handler are committed together; an effect runs after the commit that changed
  its dependency, and its own updates are the next commit. \<open>step\<close> gives the states
  committed by one event, in order. The track list is the same array at every render.
\<close>

datatype event =
    Mount
  | PlayPause
  | Next
  | Prev
  | Seek real
  | SetVolume real
  | Settle nat outcome
  | LoadStart
  | CanPlay
  | AudioError
  | TimeUpdate real
  | Ended

definition volume_effect :: "player \<Rightarrow> player" where
  "volume_effect s =
     (case audioRef s of
        None \<Rightarrow> s
      | Some a \<Rightarrow> s\<lparr>audioRef := Some (a\<lparr>audio_volume := volume s\<rparr>)\<rparr>)"

definition track_effect :: "string list \<Rightarrow> player \<Rightarrow> player" where
  "track_effect tracks s = loadTrack s (track_at tracks (currentTrack s))"

definition mount :: "string list \<Rightarrow> player \<Rightarrow> player" where
  "mount tracks s =
     (let s1 = (case audioRef s of None \<Rightarrow> s\<lparr>audioRef := Some new_Audio\<rparr> | Some a \<Rightarrow> s)
      in volume_effect (track_effect tracks s1))"

definition commit_index :: "string list \<Rightarrow> player \<Rightarrow> player \<Rightarrow> player list" where
  "commit_index tracks s s1 =
     (if currentTrack s1 \<noteq> currentTrack s then [s1, track_effect tracks s1] else [s1])"

fun continue :: "player \<Rightarrow> task \<Rightarrow> outcome \<Rightarrow> player option" where
  "continue s (LoadAwaitMetadata p) (Rejected err) = Some (loadTrack_metadata s p (Inl err))"
| "continue s (LoadAwaitMetadata p) (GotMetadata m) = Some (loadTrack_metadata s p (Inr m))"
| "continue s (LoadAwaitBlob p) (Rejected err) = Some (loadTrack_blob s p (Inl err))"
| "continue s (LoadAwaitBlob p) (GotBlob u) = Some (loadTrack_blob s p (Inr u))"
| "continue s (PreloadAwait p r) (Rejected err) = Some (preloadRange_settled s p r (Inl err))"
| "continue s (PreloadAwait p r) (GotBuffer b) = Some (preloadRange_settled s p r (Inr b))"
| "continue s PlayAwait (Rejected err) = Some (play_catch s err)"
| "continue s PlayAwait Played = Some s"
| "continue s _ _ = None"

definition settle :: "player \<Rightarrow> nat \<Rightarrow> outcome \<Rightarrow> player" where
  "settle s i out =
     (if i < length (pending s)
      then (case continue (s\<lparr>pending := take i (pending s) @ drop (Suc i) (pending s)\<rparr>)
                   (pending s ! i) out of
              Some s1 \<Rightarrow> s1
            | None \<Rightarrow> s)
      else s)"

definition on_audio :: "player \<Rightarrow> (audio \<Rightarrow> player) \<Rightarrow> player" where
  "on_audio s k = (case audioRef s of None \<Rightarrow> s | Some a \<Rightarrow> k a)"

fun step :: "string list \<Rightarrow> player \<Rightarrow> event \<Rightarrow> player list" where
  "step tracks s Mount = [mount tracks s]"
| "step tracks s PlayPause = [handlePlayPause s]"
| "step tracks s Next = commit_index tracks s (handleNext tracks s)"
| "step tracks s Prev = commit_index tracks s (handlePrev tracks s)"
| "step tracks s (Seek t) = [handleSeek tracks s t]"
| "step tracks s (SetVolume v) = [volume_effect (s\<lparr>volume := v\<rparr>)]"
| "step tracks s (Settle i out) = [settle s i out]"
| "step tracks s LoadStart = [on_audio s (\<lambda>a. s\<lparr>isLoading := True\<rparr>)]"
| "step tracks s CanPlay = [on_audio s (\<lambda>a. s\<lparr>isLoading := False\<rparr>)]"
| "step tracks s AudioError =
     [on_audio s (\<lambda>a. s\<lparr>error := Some ''Audio error: [object Event]'', isLoading := False\<rparr>)]"
| "step tracks s (TimeUpdate t) =
     [on_audio s (\<lambda>a. s\<lparr>audioRef := Some (a\<lparr>currentTime := t\<rparr>), seek := t\<rparr>)]"
| "step tracks s Ended =
     (case audioRef s of
        None \<Rightarrow> [s]
      | Some a \<Rightarrow> commit_index tracks s (handleNext tracks s))"

fun run :: "string list \<Rightarrow> player \<Rightarrow> event list \<Rightarrow> player list" where
  "run tracks s [] = []"
| "run tracks s (ev # evs) = step tracks s ev @ run tracks (last (step tracks s ev)) evs"

definition final :: "string list \<Rightarrow> player \<Rightarrow> event list \<Rightarrow> player" where
  "final tracks s evs = last (s # run tracks s evs)"

text \<open>The metadata probes sent so far for a path: HEAD requests with \<^verbatim>\<open>Range: bytes=0-1\<close>.\<close>

definition probes :: "fetcher \<Rightarrow> string \<Rightarrow> nat" where
  "probes f p =
     length (filter (\<lambda>q. req_method q = HEAD \<and> req_url q = resource_url f p
                          \<and> req_range q = Some ''bytes=0-1'') (requests f))"

subsection \<open>The promise behind a task\<close>

text \<open>
  The hook passes its \<^verbatim>\<open>{start, end}\<close> range to the fetcher as it is. Each task but
  \<open>PlayAwait\<close> awaits one call of the fetcher; \<open>awaited\<close> makes that call.
\<close>

definition to_RangeRequest :: "byte_range \<Rightarrow> RangeRequest" where
  "to_RangeRequest rng = \<lparr>range_start = r_start rng, range_end = Some (r_end rng)\<rparr>"

fun awaited :: "env \<Rightarrow> fetcher \<Rightarrow> task \<Rightarrow> (outcome \<times> fetcher) option" where
  "awaited e f (LoadAwaitMetadata p) =
     (case getMetadata e f p of
        (Inl err, f1) \<Rightarrow> Some (Rejected err, f1)
      | (Inr m, f1) \<Rightarrow> Some (GotMetadata m, f1))"
| "awaited e f (LoadAwaitBlob p) =
     (case createStreamingBlob e f p of
        (Inl err, f1) \<Rightarrow> Some (Rejected err, f1)
      | (Inr u, f1) \<Rightarrow> Some (GotBlob u, f1))"
| "awaited e f (PreloadAwait p r) =
     (case audioFetcher_preloadRange e f p (to_RangeRequest r) of
        (Inl err, f1) \<Rightarrow> Some (Rejected err, f1)
      | (Inr b, f1) \<Rightarrow> Some (GotBuffer b, f1))"
| "awaited e f PlayAwait = None"

section \<open>Scenarios\<close>

text \<open>
  Concrete inputs: a two-track list, the metadata of the two tracks, a server that
  gives every request the same response, and the events of a first load that succeeds.
\<close>

definition demo_tracks :: "string list" where
  "demo_tracks = [''a.mp3'', ''b.mp3'']"

definition demo_meta :: "real \<Rightarrow> int \<Rightarrow> AudioMetadata" where
  "demo_meta d sz =
     \<lparr>md_duration = d, md_size = sz, md_contentType = ''audio/mpeg'', md_acceptRanges = True\<rparr>"

definition meta_a :: AudioMetadata where
  "meta_a = demo_meta 200 5000000"

definition meta_b :: AudioMetadata where
  "meta_b = demo_meta 90 2000000"

definition first_load :: "AudioMetadata \<Rightarrow> event list" where
  "first_load m =
     [Mount, Settle 0 (GotMetadata m), Settle 0 (GotBlob ''blob:0''), LoadStart, CanPlay,
      Settle 0 (GotBuffer [])]"

definition loaded :: "string list \<Rightarrow> AudioMetadata \<Rightarrow> player" where
  "loaded tracks m = final tracks initial_player (first_load m)"


definition stale_events :: "event list" where
  "stale_events =
     [Mount, Next, Settle 1 (GotMetadata meta_b), Settle 1 (GotBlob ''blob:b''),
      Settle 0 (GotMetadata meta_a), Settle 1 (GotBlob ''blob:a'')]"


definition preload_fails :: "event list" where
  "preload_fails =
     [Mount, Settle 0 (GotMetadata meta_a), Settle 0 (GotBlob ''blob:0''),
      Settle 0 (Rejected (JsError ''Range request failed: 500''))]"

definition demo_response :: "nat \<Rightarrow> string option \<Rightarrow> response" where
  "demo_response st ar =
     \<lparr>status = st, content_length = Some 5000000, content_type = Some ''audio/mpeg'',
      accept_ranges = ar, body = []\<rparr>"

definition demo_env :: "nat \<Rightarrow> string option \<Rightarrow> env" where
  "demo_env st ar =
     \<lparr>server = (\<lambda>log req. Inr (demo_response st ar)), audioContext = True,
      decodeAudioData = (\<lambda>b. Decoded 200)\<rparr>"

text \<open>A transport that fails: every \<^verbatim>\<open>fetch\<close> rejects.\<close>

definition offline_env :: env where
  "offline_env =
     \<lparr>server = (\<lambda>log req. Inl (TypeError ''Failed to fetch'')), audioContext = True,
      decodeAudioData = (\<lambda>b. Decoded 200)\<rparr>"

text \<open>A server whose file grows by a byte with every request it has seen.\<close>

definition drifting_env :: env where
  "drifting_env =
     \<lparr>server = (\<lambda>log req. Inr \<lparr>status = 200, content_length = Some (1000 + length log),
                                  content_type = Some ''audio/mpeg'',
                                  accept_ranges = Some ''bytes'', body = []\<rparr>),
      audioContext = True, decodeAudioData = (\<lambda>b. Decoded 200)\<rparr>"

text \<open>
  Two calls for one path that overlap: the second starts before the first has its
  answer, the first returns, a third call is made, the second returns, a fourth is made.
\<close>

definition overlap_events :: "session_event list" where
  "overlap_events =
     [CallGetMetadata ''a.mp3'', CallGetMetadata ''a.mp3'', Resume 0, Resume 0,
      CallGetMetadata ''a.mp3'', Resume 0, Resume 0, CallGetMetadata ''a.mp3'']"

text \<open>A server that answers the first two requests and refuses every later one.\<close>

definition flaky_env :: env where
  "flaky_env =
     \<lparr>server = (\<lambda>log req. if length log < 2 then Inr (demo_response 200 (Some ''bytes''))
                             else Inr (demo_response 404 None)),
      audioContext = True, decodeAudioData = (\<lambda>b. Decoded 200)\<rparr>"

text \<open>
  A session in which the first call for \<^verbatim>\<open>a.mp3\<close> waits for its range request, and
  what happens after that call has returned: another request, and a call for \<^verbatim>\<open>b.mp3\<close>.
\<close>

definition warm_session :: session where
  "warm_session = session_run flaky_env new_session [CallGetMetadata ''a.mp3'', Resume 0]"

definition later_events :: "session_event list" where
  "later_events =
     [SendRequest \<lparr>req_method = GET, req_url = ''/api/audio/a.mp3'',
                   req_range = Some ''bytes=0-''\<rparr>,
      CallGetMetadata ''b.mp3'', Resume 0]"

definition no_ranges_fetcher :: fetcher where
  "no_ranges_fetcher = snd (getMetadata (demo_env 200 None) audioFetcher ''a.mp3'')"

definition ranges_fetcher :: fetcher where
  "ranges_fetcher = snd (getMetadata (demo_env 206 (Some ''bytes'')) audioFetcher ''a.mp3'')"

text \<open>
  The order of a track switch in the specification's words: in the commits that
  follow \<^verbatim>\<open>next()\<close>, the position is reset and \<open>isLoading\<close> is true (phase 1), then
  \<open>isLoading\<close> is false (phase 2), and \<open>isPlaying\<close> is true in phase 2 only.
\<close>

fun playing_after_loading :: "nat \<Rightarrow> player list \<Rightarrow> bool" where
  "playing_after_loading ph [] = True"
| "playing_after_loading ph (s # ss) =
     (let ph1 = (if ph = 0 \<and> isLoading s \<and> seek s = 0 then 1
                 else if ph = 1 \<and> \<not> isLoading s then 2 else ph)
      in (if isPlaying s then ph1 = 2 else True) \<and> playing_after_loading ph1 ss)"

section \<open>Decimal rendering and range keys\<close>

text \<open>
  The decimal rendering of an integer can be read back, consists of digits after an
  optional sign, and so the key built from a track path and the two bounds of a range
  determines all three.
\<close>

lemma lt10_cases: "d < 10 \<Longrightarrow> d \<in> {0, 1, 2, 3, 4, 5, 6, 7, 8, 9::nat}"
  by auto

lemma digit_char_is_digit: "d < 10 \<Longrightarrow> is_digit (digit_char d)"
  by (drule lt10_cases) (auto simp: digit_char_def is_digit_def)

lemma digit_value_digit_char: "d < 10 \<Longrightarrow> digit_value (digit_char d) = d"
  by (drule lt10_cases) (auto simp: digit_char_def digit_value_def)

lemma read_nat_snoc: "read_nat (cs @ [c]) = 10 * read_nat cs + digit_value c"
  by (simp add: read_nat_def)

lemma read_show_nat: "read_nat (show_nat n) = n"
proof (induction n rule: show_nat.induct)
  case (1 n)
  show ?case
  proof (cases "n < 10")
    case True
    then show ?thesis
      by (subst show_nat.simps) (simp add: read_nat_def digit_value_digit_char)
  next
    case False
    with 1 have "read_nat (show_nat (n div 10)) = n div 10" by simp
    with False show ?thesis
      by (subst show_nat.simps) (simp add: read_nat_snoc digit_value_digit_char)
  qed
qed

lemma show_nat_inj: "show_nat m = show_nat n \<Longrightarrow> m = n"
  by (metis read_show_nat)

lemma show_nat_digits: "c \<in> set (show_nat n) \<Longrightarrow> is_digit c"
proof (induction n arbitrary: c rule: show_nat.induct)
  case (1 n)
  show ?case
  proof (cases "n < 10")
    case True
    with "1.prems" show ?thesis
      by (subst (asm) show_nat.simps) (simp add: digit_char_is_digit)
  next
    case False
    with "1.prems" have "c \<in> set (show_nat (n div 10)) \<or> c = digit_char (n mod 10)"
      by (subst (asm) show_nat.simps) auto
    with False "1.IH" show ?thesis
      by (auto simp: digit_char_is_digit)
  qed
qed

lemma show_nat_nonempty: "show_nat n \<noteq> []"
  by (subst show_nat.simps) simp

lemma minus_not_digit: "\<not> is_digit CHR ''-''"
  by (simp add: is_digit_def)

lemma colon_not_digit: "\<not> is_digit CHR '':''"
  by (simp add: is_digit_def)

lemma show_nat_no_minus: "CHR ''-'' \<notin> set (show_nat n)"
  using show_nat_digits minus_not_digit by blast

lemma show_nat_no_colon: "CHR '':'' \<notin> set (show_nat n)"
  using show_nat_digits colon_not_digit by blast

lemma show_nat_hd: "hd (show_nat n) \<noteq> CHR ''-''"
  using show_nat_no_minus [of n] show_nat_nonempty [of n] by (cases "show_nat n") auto

lemma show_int_no_colon: "CHR '':'' \<notin> set (show_int i)"
  by (simp add: show_int_def show_nat_no_colon)

lemma split_first:
  "xs @ x # u = ys @ x # v \<Longrightarrow> x \<notin> set xs \<Longrightarrow> x \<notin> set ys \<Longrightarrow> xs = ys \<and> u = v"
proof (induction xs arbitrary: ys)
  case Nil
  then show ?case by (cases ys) auto
next
  case (Cons a xs)
  then show ?case by (cases ys) auto
qed

lemma split_last:
  assumes "xs @ x # u = ys @ x # v" and "x \<notin> set u" and "x \<notin> set v"
  shows "xs = ys \<and> u = v"
proof -
  from assms(1) have "rev (xs @ x # u) = rev (ys @ x # v)" by simp
  then have "rev u @ x # rev xs = rev v @ x # rev ys" by simp
  with assms(2,3) have "rev u = rev v \<and> rev xs = rev ys"
    by (intro split_first) auto
  then show ?thesis by simp
qed

lemma show_int_inj: "show_int a = show_int b \<Longrightarrow> a = b"
proof -
  assume eq: "show_int a = show_int b"
  consider "a < 0" "b < 0" | "a < 0" "0 \<le> b" | "0 \<le> a" "b < 0" | "0 \<le> a" "0 \<le> b"
    by linarith
  then show ?thesis
  proof cases
    case 1
    with eq have "nat (- a) = nat (- b)" by (auto simp: show_int_def dest: show_nat_inj)
    with 1 show ?thesis by simp
  next
    case 2
    with eq have "hd (show_nat (nat b)) = CHR ''-''" by (simp add: show_int_def flip: eq)
       (metis list.sel(1))
    then show ?thesis by (simp add: show_nat_hd)
  next
    case 3
    with eq have "hd (show_nat (nat a)) = CHR ''-''" by (simp add: show_int_def)
    then show ?thesis by (simp add: show_nat_hd)
  next
    case 4
    with eq have "nat a = nat b" by (auto simp: show_int_def dest: show_nat_inj)
    with 4 show ?thesis by simp
  qed
qed

lemma show_int_dash_inj:
  assumes "show_int a @ CHR ''-'' # u = show_int b @ CHR ''-'' # v"
  shows "a = b \<and> u = v"
proof -
  consider "a < 0" "b < 0" | "a < 0" "0 \<le> b" | "0 \<le> a" "b < 0" | "0 \<le> a" "0 \<le> b"
    by linarith
  then show ?thesis
  proof cases
    case 1
    with assms have "show_nat (nat (- a)) @ CHR ''-'' # u = show_nat (nat (- b)) @ CHR ''-'' # v"
      by (simp add: show_int_def)
    then have "show_nat (nat (- a)) = show_nat (nat (- b)) \<and> u = v"
      by (rule split_first) (rule show_nat_no_minus)+
    with 1 show ?thesis by (auto dest: show_nat_inj)
  next
    case 2
    with assms have "hd (show_nat (nat b) @ CHR ''-'' # v) = CHR ''-''"
      by (simp add: show_int_def flip: assms) (metis list.sel(1))
    then show ?thesis using show_nat_nonempty [of "nat b"] by (simp add: show_nat_hd)
  next
    case 3
    with assms have "hd (show_nat (nat a) @ CHR ''-'' # u) = CHR ''-''"
      by (simp add: show_int_def)
    then show ?thesis using show_nat_nonempty [of "nat a"] by (simp add: show_nat_hd)
  next
    case 4
    with assms have "show_nat (nat a) @ CHR ''-'' # u = show_nat (nat b) @ CHR ''-'' # v"
      by (simp add: show_int_def)
    then have "show_nat (nat a) = show_nat (nat b) \<and> u = v"
      by (rule split_first) (rule show_nat_no_minus)+
    with 4 show ?thesis by (auto dest: show_nat_inj)
  qed
qed

lemma rangeKey_inj:
  assumes "rangeKey p r = rangeKey p' r'"
  shows "p = p' \<and> r = r'"
proof -
  let ?u = "show_int (r_start r) @ CHR ''-'' # show_int (r_end r)"
  let ?v = "show_int (r_start r') @ CHR ''-'' # show_int (r_end r')"
  have nc: "CHR '':'' \<notin> set ?u" "CHR '':'' \<notin> set ?v"
    by (simp_all add: show_int_no_colon)
  from assms have "p @ CHR '':'' # ?u = p' @ CHR '':'' # ?v"
    by (simp add: rangeKey_def)
  then have pq: "p = p' \<and> ?u = ?v"
    using nc by (rule split_last)
  then have "r_start r = r_start r' \<and> show_int (r_end r) = show_int (r_end r')"
    by (intro show_int_dash_inj) simp
  then have "r_start r = r_start r' \<and> r_end r = r_end r'"
    by (auto dest: show_int_inj)
  with pq show ?thesis by simp
qed

section \<open>Evaluating the hook\<close>

lemmas render_defs = show_int_def show_nat.simps digit_char_def

lemmas hook_defs =
  final_def initial_player_def mount_def track_effect_def loadTrack_def volume_effect_def
  new_Audio_def commit_index_def handleNext_def handlePrev_def settle_def
  loadTrack_metadata_def loadTrack_blob_def loadTrack_catch_def preloadRange_def
  preloadRange_settled_def preloaded_has_def preloaded_add_def rangeKey_def startsWith_def
  on_audio_def handlePlayPause_def play_catch_def error_string_def

text \<open>The state after a first load that succeeded, for any track list and metadata.\<close>

lemma loaded_fields:
  "loaded tracks m =
     \<lparr>currentTrack = 0, isPlaying = False, volume = 1, duration = md_duration m, seek = 0,
      isLoading = False, error = None,
      audioRef = Some \<lparr>src = ''blob:0'', currentTime = 0, audio_volume = 1,
                        audio_calls = [Load]\<rparr>,
      metadataRef = Some m,
      preloadedRanges = {track_at tracks 0 @ '':0-1048576''},
      pending = [], revoked = []\<rparr>"
  by (simp add: loaded_def first_load_def hook_defs render_defs Let_def)

lemma seek_preloadRange: "seek (preloadRange s p r) = seek s"
  by (simp add: preloadRange_def)

section \<open>Seeking\<close>

text \<open>
  C8. On a loaded track (the audio element and the metadata are present, the duration
  is not negative), \<open>handleSeek\<close> sets the seek position to the target clamped to
  the interval from 0 to the duration: 0 for a negative target, the duration for a
  target beyond it, the target itself otherwise.
\<close>

theorem handleSeek_clamps:
  assumes "audioRef s = Some a" and "metadataRef s = Some m" and "0 \<le> duration s"
  shows "seek (handleSeek tracks s t)
           = (if t < 0 then 0 else if duration s < t then duration s else t)"
  using assms by (simp add: handleSeek_def Let_def seek_preloadRange max_def min_def)

text \<open>On a track of duration 180: seeking to -5 gives 0, to 500 gives 180, to 42 gives 42.\<close>

theorem handleSeek_clamps_witness:
  "audioRef (loaded demo_tracks (demo_meta 180 4000000)) \<noteq> None
   \<and> metadataRef (loaded demo_tracks (demo_meta 180 4000000)) \<noteq> None
   \<and> duration (loaded demo_tracks (demo_meta 180 4000000)) = 180
   \<and> seek (handleSeek demo_tracks (loaded demo_tracks (demo_meta 180 4000000)) (- 5)) = 0
   \<and> seek (handleSeek demo_tracks (loaded demo_tracks (demo_meta 180 4000000)) 500) = 180
   \<and> seek (handleSeek demo_tracks (loaded demo_tracks (demo_meta 180 4000000)) 42) = 42"
proof -
  let ?s = "loaded demo_tracks (demo_meta 180 4000000)"
  have a: "audioRef ?s = Some \<lparr>src = ''blob:0'', currentTime = 0, audio_volume = 1,
                                audio_calls = [Load]\<rparr>"
    by (simp add: loaded_fields)
  have m: "metadataRef ?s = Some (demo_meta 180 4000000)"
    by (simp add: loaded_fields)
  have d: "duration ?s = 180"
    by (simp add: loaded_fields demo_meta_def)
  have d0: "0 \<le> duration ?s"
    by (simp add: d)
  show ?thesis
    using handleSeek_clamps [OF a m d0, of demo_tracks "- 5"]
          handleSeek_clamps [OF a m d0, of demo_tracks 500]
          handleSeek_clamps [OF a m d0, of demo_tracks 42] a m d
    by simp
qed

section \<open>The set of preloaded ranges\<close>

text \<open>
  C9. Once a preload of range \<open>r\<close> of track \<open>p\<close> has succeeded and its key is added,
  the membership test holds for \<open>(p, r)\<close>; for any other pair of a track and a range,
  overlapping or not, it is what it was before. Membership is by exact track, start
  and end.
\<close>

theorem preloaded_exact_match:
  "preloaded_has (preloadRange_settled s p r (Inr b)) p' r'
     = ((p' = p \<and> r' = r) \<or> preloaded_has s p' r')"
  by (auto simp: preloadRange_settled_def preloaded_has_def preloaded_add_def
           dest: rangeKey_inj)

text \<open>
  After the first megabyte of \<^verbatim>\<open>a.mp3\<close> is marked, the first half megabyte of it and
  the first megabyte of \<^verbatim>\<open>b.mp3\<close> are not.
\<close>

theorem preloaded_exact_match_witness:
  "preloaded_has
     (preloadRange_settled initial_player ''a.mp3'' \<lparr>r_start = 0, r_end = 1048576\<rparr> (Inr []))
     ''a.mp3'' \<lparr>r_start = 0, r_end = 1048576\<rparr>
   \<and> \<not> preloaded_has
     (preloadRange_settled initial_player ''a.mp3'' \<lparr>r_start = 0, r_end = 1048576\<rparr> (Inr []))
     ''a.mp3'' \<lparr>r_start = 0, r_end = 524288\<rparr>
   \<and> \<not> preloaded_has
     (preloadRange_settled initial_player ''a.mp3'' \<lparr>r_start = 0, r_end = 1048576\<rparr> (Inr []))
     ''b.mp3'' \<lparr>r_start = 0, r_end = 1048576\<rparr>"
  using preloaded_exact_match [of initial_player "''a.mp3''"
          "\<lparr>r_start = 0, r_end = 1048576\<rparr>" "[]"]
  by (simp add: preloaded_has_def initial_player_def)

section \<open>Next and previous\<close>

text \<open>
  C10. With a non-empty track list of length \<open>n\<close> and a current index \<open>i\<close> that is
  not negative, \<open>handleNext\<close> sets the index to \<open>(i + 1) mod n\<close>, \<open>handlePrev\<close> sets it
  to \<open>n - 1\<close> when \<open>i = 0\<close> and to \<open>i - 1\<close> otherwise, and both set \<open>isPlaying\<close>; in
  \<^verbatim>\<open>useRangeAudioPlayer\<close> and in \<^verbatim>\<open>useAudioPlayer\<close> alike.
\<close>

theorem next_prev_index:
  assumes "tracks \<noteq> []" and "0 \<le> currentTrack s" and "0 \<le> bp_currentTrack b"
  shows "currentTrack (handleNext tracks s) = (currentTrack s + 1) mod int (length tracks)
       \<and> isPlaying (handleNext tracks s)
       \<and> currentTrack (handlePrev tracks s)
           = (if currentTrack s = 0 then int (length tracks) - 1 else currentTrack s - 1)
       \<and> isPlaying (handlePrev tracks s)
       \<and> bp_currentTrack (useAudioPlayer_handleNext tracks b)
           = (bp_currentTrack b + 1) mod int (length tracks)
       \<and> bp_isPlaying (useAudioPlayer_handleNext tracks b)
       \<and> bp_currentTrack (useAudioPlayer_handlePrev tracks b)
           = (if bp_currentTrack b = 0 then int (length tracks) - 1 else bp_currentTrack b - 1)
       \<and> bp_isPlaying (useAudioPlayer_handlePrev tracks b)"
  using assms
  by (simp add: handleNext_def handlePrev_def useAudioPlayer_handleNext_def
        useAudioPlayer_handlePrev_def signed_modulo_int_def)

text \<open>On two tracks: next from the last index wraps to 0, previous from 0 goes to 1.\<close>

theorem next_prev_index_witness:
  "demo_tracks \<noteq> []
   \<and> currentTrack (handleNext demo_tracks (initial_player\<lparr>currentTrack := 1\<rparr>)) = 0
   \<and> isPlaying (handleNext demo_tracks (initial_player\<lparr>currentTrack := 1\<rparr>))
   \<and> currentTrack (handlePrev demo_tracks (initial_player\<lparr>currentTrack := 1\<rparr>)) = 0
   \<and> bp_currentTrack (useAudioPlayer_handlePrev demo_tracks
                        \<lparr>bp_currentTrack = 0, bp_isPlaying = False\<rparr>) = 1
   \<and> bp_currentTrack (useAudioPlayer_handleNext demo_tracks
                        \<lparr>bp_currentTrack = 0, bp_isPlaying = False\<rparr>) = 1"
proof -
  have t: "demo_tracks \<noteq> []"
    by (simp add: demo_tracks_def)
  have i: "0 \<le> currentTrack (initial_player\<lparr>currentTrack := 1\<rparr>)"
    by simp
  have j: "0 \<le> bp_currentTrack \<lparr>bp_currentTrack = 0, bp_isPlaying = False\<rparr>"
    by simp
  show ?thesis
    using next_prev_index [OF t i j] t by (simp add: demo_tracks_def)
qed

section \<open>Properties of the fetcher\<close>

lemma fetch_fields [simp]:
  "cache (snd (fetch e f q)) = cache f"
  "baseUrl (snd (fetch e f q)) = baseUrl f"
  "requests (snd (fetch e f q)) = requests f @ [q]"
  "objectURLs (snd (fetch e f q)) = objectURLs f"
  "fst (fetch e f q) = server e (requests f) q"
  by (simp_all add: fetch_def)

lemma fetchRange_fields [simp]:
  "cache (snd (fetchRange e f p rng)) = cache f"
  "baseUrl (snd (fetchRange e f p rng)) = baseUrl f"
  "requests (snd (fetchRange e f p rng))
     = requests f @ [\<lparr>req_method = GET, req_url = resource_url f p,
                       req_range = Some (rangeHeader rng)\<rparr>]"
  by (simp_all add: fetchRange_def fetch_def split: sum.splits)

lemma resource_url_fetch [simp]: "resource_url (snd (fetch e f q)) p = resource_url f p"
  by (simp add: resource_url_def)

lemma resource_url_fetchRange [simp]:
  "resource_url (snd (fetchRange e f q rng)) p = resource_url f p"
  by (simp add: resource_url_def)

lemma estimate_fields [simp]:
  "cache (snd (estimateDurationFromSize e f p)) = cache f"
  "baseUrl (snd (estimateDurationFromSize e f p)) = baseUrl f"
  "requests (snd (estimateDurationFromSize e f p))
     = requests f @ [\<lparr>req_method = HEAD, req_url = resource_url f p, req_range = None\<rparr>]"
  by (simp_all add: estimateDurationFromSize_def fetch_def split: sum.splits option.splits)

lemma getAudioDuration_fields [simp]:
  "cache (snd (getAudioDuration e f p)) = cache f"
  "baseUrl (snd (getAudioDuration e f p)) = baseUrl f"
  by (simp_all add: getAudioDuration_def split_beta split: sum.splits decoded.splits)

lemma createObjectURL_fields [simp]:
  "cache (snd (createObjectURL f b)) = cache f"
  "baseUrl (snd (createObjectURL f b)) = baseUrl f"
  "requests (snd (createObjectURL f b)) = requests f"
  by (simp_all add: createObjectURL_def)

lemma getMetadata_hit:
  "cache f (cacheKey p) = Some m \<Longrightarrow> getMetadata e f p = (Inr m, f)"
  by (simp add: getMetadata_def)

lemma getMetadata_success_cache:
  "getMetadata e f p = (Inr m, f1) \<Longrightarrow> cache f1 (cacheKey p) = Some m"
  by (auto simp: getMetadata_def split_beta Let_def split: option.splits sum.splits if_splits)

lemmas fetcher_defs =
  getMetadata_def getAudioDuration_def estimateDurationFromSize_def fetchRange_def fetch_def
  createStreamingBlob_def createObjectURL_def audioFetcher_preloadRange_def rangeHeader_def
  resource_url_def cacheKey_def ok_def audioFetcher_def new_fetcher_def demo_env_def
  demo_response_def metadata_of_def

subsection \<open>Outcomes of a range fetch\<close>

text \<open>
  C6, as stated, fails. When the transport fails, \<open>fetchRange\<close> neither returns a
  response nor fails with an error that carries a status: it fails with the error of
  the transport.
\<close>

theorem fetchRange_rejected_counterexample:
  "fst (fetchRange offline_env audioFetcher ''a.mp3''
          \<lparr>range_start = 0, range_end = Some 1048576\<rparr>)
     = Inl (TypeError ''Failed to fetch'')"
  by (simp add: fetchRange_def fetch_def offline_env_def)

text \<open>
  C6, amended. For every range, \<open>fetchRange\<close> has one of three outcomes. When the
  transport answers with status 200 or 206 it returns that response. When the
  transport answers with any other status it fails with an error whose message ends
  with the status in decimal, from which the status is read back. When the transport
  fails without a response it fails with the transport's error, which carries no
  status. Given a response, it fails exactly when the status is neither 200 nor 206.
\<close>

theorem fetchRange_outcomes:
  "fst (fetchRange e f p rng)
     = (case server e (requests f) \<lparr>req_method = GET, req_url = resource_url f p,
                                      req_range = Some (rangeHeader rng)\<rparr> of
          Inl err \<Rightarrow> Inl err
        | Inr r \<Rightarrow>
            if status r = 200 \<or> status r = 206 then Inr r
            else Inl (JsError (''Range request failed: '' @ show_nat (status r))))
   \<and> read_nat (show_nat st) = st"
  by (simp add: fetchRange_def fetch_def read_show_nat split: sum.splits)

text \<open>
  Status 404 fails with the status in the message, 206 and 200 return the response,
  a failed transport fails with its own error.
\<close>

theorem fetchRange_outcomes_witness:
  "fst (fetchRange (demo_env 404 None) audioFetcher ''a.mp3''
          \<lparr>range_start = 0, range_end = Some 1048576\<rparr>)
     = Inl (JsError ''Range request failed: 404'')
   \<and> read_nat ''404'' = 404
   \<and> fst (fetchRange (demo_env 206 (Some ''bytes'')) audioFetcher ''a.mp3''
          \<lparr>range_start = 0, range_end = Some 1048576\<rparr>)
     = Inr (demo_response 206 (Some ''bytes''))
   \<and> fst (fetchRange (demo_env 200 None) audioFetcher ''a.mp3''
          \<lparr>range_start = 0, range_end = Some 1048576\<rparr>)
     = Inr (demo_response 200 None)
   \<and> fst (fetchRange offline_env audioFetcher ''a.mp3''
          \<lparr>range_start = 0, range_end = Some 1048576\<rparr>)
     = Inl (TypeError ''Failed to fetch'')"
  using fetchRange_outcomes [of "demo_env 404 None" audioFetcher "''a.mp3''"
          "\<lparr>range_start = 0, range_end = Some 1048576\<rparr>" 404]
        fetchRange_outcomes [of "demo_env 206 (Some ''bytes'')" audioFetcher "''a.mp3''"
          "\<lparr>range_start = 0, range_end = Some 1048576\<rparr>" 404]
        fetchRange_outcomes [of "demo_env 200 None" audioFetcher "''a.mp3''"
          "\<lparr>range_start = 0, range_end = Some 1048576\<rparr>" 404]
        fetchRange_outcomes [of offline_env audioFetcher "''a.mp3''"
          "\<lparr>range_start = 0, range_end = Some 1048576\<rparr>" 404]
  by (simp add: demo_env_def offline_env_def demo_response_def render_defs)

subsection \<open>Resources without range support\<close>

lemma no_ranges_fetcher_fields:
  "cache no_ranges_fetcher (cacheKey ''a.mp3'')
     = Some \<lparr>md_duration = 200, md_size = 5000000, md_contentType = ''audio/mpeg'',
              md_acceptRanges = False\<rparr>"
  "baseUrl no_ranges_fetcher = ''/api/audio''"
  "requests no_ranges_fetcher
     = [\<lparr>req_method = HEAD, req_url = ''/api/audio/a.mp3'', req_range = Some ''bytes=0-1''\<rparr>,
        \<lparr>req_method = GET, req_url = ''/api/audio/a.mp3'',
          req_range = Some ''bytes=0-1048576''\<rparr>]"
  by (simp_all add: no_ranges_fetcher_def fetcher_defs render_defs Let_def)

lemma ranges_fetcher_fields:
  "cache ranges_fetcher (cacheKey ''a.mp3'')
     = Some \<lparr>md_duration = 200, md_size = 5000000, md_contentType = ''audio/mpeg'',
              md_acceptRanges = True\<rparr>"
  "baseUrl ranges_fetcher = ''/api/audio''"
  "requests ranges_fetcher
     = [\<lparr>req_method = HEAD, req_url = ''/api/audio/a.mp3'', req_range = Some ''bytes=0-1''\<rparr>,
        \<lparr>req_method = GET, req_url = ''/api/audio/a.mp3'',
          req_range = Some ''bytes=0-1048576''\<rparr>]"
  by (simp_all add: ranges_fetcher_def fetcher_defs render_defs Let_def)

text \<open>
  C2, as stated, fails. With the cached metadata of \<^verbatim>\<open>a.mp3\<close> saying that ranges are
  not supported, \<open>fetchRange\<close> and the fetcher's \<open>preloadRange\<close> still send a request
  with a \<^verbatim>\<open>Range\<close> header.
\<close>

theorem fetchRange_sends_Range_counterexample:
  "map_option md_acceptRanges (cache no_ranges_fetcher (cacheKey ''a.mp3'')) = Some False
   \<and> requests (snd (fetchRange (demo_env 200 None) no_ranges_fetcher ''a.mp3''
                      \<lparr>range_start = 0, range_end = Some 1048576\<rparr>))
       = requests no_ranges_fetcher
         @ [\<lparr>req_method = GET, req_url = ''/api/audio/a.mp3'',
              req_range = Some ''bytes=0-1048576''\<rparr>]
   \<and> requests (snd (audioFetcher_preloadRange (demo_env 200 None) no_ranges_fetcher ''a.mp3''
                      \<lparr>range_start = 1024, range_end = Some 2048\<rparr>))
       = requests no_ranges_fetcher
         @ [\<lparr>req_method = GET, req_url = ''/api/audio/a.mp3'',
              req_range = Some ''bytes=1024-2048''\<rparr>]"
  by (simp add: no_ranges_fetcher_fields audioFetcher_preloadRange_def split_beta
        rangeHeader_def resource_url_def render_defs split: sum.splits)

text \<open>
  C2, amended. \<open>fetchRange\<close> and the fetcher's \<open>preloadRange\<close> send one GET request
  with the \<^verbatim>\<open>Range\<close> header \<^verbatim>\<open>bytes=start-end\<close>, or \<^verbatim>\<open>bytes=start-\<close> when the end is
  absent or 0, whatever the cached metadata says. Only \<open>createStreamingBlob\<close> reads
  the flag: when the cached metadata says ranges are not supported it sends one GET
  request without a \<^verbatim>\<open>Range\<close> header, and when it says they are supported it sends
  no request.
\<close>

theorem range_header_whatever_the_flag:
  "requests (snd (fetchRange e f p rng))
     = requests f
       @ [\<lparr>req_method = GET, req_url = resource_url f p,
            req_range =
              Some (''bytes='' @ show_int (range_start rng) @ ''-''
                    @ (case range_end rng of
                         None \<Rightarrow> []
                       | Some en \<Rightarrow> if en = 0 then [] else show_int en))\<rparr>]
   \<and> requests (snd (audioFetcher_preloadRange e f p rng))
     = requests (snd (fetchRange e f p rng))
   \<and> (cache f (cacheKey p) = Some m \<longrightarrow>
        requests (snd (createStreamingBlob e f p))
          = (if md_acceptRanges m then requests f
             else requests f
                  @ [\<lparr>req_method = GET, req_url = resource_url f p, req_range = None\<rparr>]))"
  by (simp add: audioFetcher_preloadRange_def createStreamingBlob_def getMetadata_hit split_beta
        rangeHeader_def split: sum.splits option.splits)

text \<open>
  The streaming blob of a track without range support is fetched in full; for a track
  with range support nothing is fetched; a range with end 0 is sent open-ended.
\<close>

theorem range_header_whatever_the_flag_witness:
  "requests (snd (createStreamingBlob (demo_env 200 None) no_ranges_fetcher ''a.mp3''))
     = requests no_ranges_fetcher
       @ [\<lparr>req_method = GET, req_url = ''/api/audio/a.mp3'', req_range = None\<rparr>]
   \<and> requests (snd (createStreamingBlob (demo_env 206 (Some ''bytes'')) ranges_fetcher
                      ''a.mp3''))
     = requests ranges_fetcher
   \<and> requests (snd (fetchRange (demo_env 200 None) no_ranges_fetcher ''a.mp3''
                      \<lparr>range_start = 5, range_end = Some 0\<rparr>))
     = requests no_ranges_fetcher
       @ [\<lparr>req_method = GET, req_url = ''/api/audio/a.mp3'', req_range = Some ''bytes=5-''\<rparr>]"
  using range_header_whatever_the_flag [of "demo_env 200 None" no_ranges_fetcher "''a.mp3''"
          "\<lparr>range_start = 5, range_end = Some 0\<rparr>"
          "\<lparr>md_duration = 200, md_size = 5000000, md_contentType = ''audio/mpeg'',
            md_acceptRanges = False\<rparr>"]
        range_header_whatever_the_flag [of "demo_env 206 (Some ''bytes'')" ranges_fetcher
          "''a.mp3''" "\<lparr>range_start = 5, range_end = Some 0\<rparr>"
          "\<lparr>md_duration = 200, md_size = 5000000, md_contentType = ''audio/mpeg'',
            md_acceptRanges = True\<rparr>"]
  by (simp add: no_ranges_fetcher_fields ranges_fetcher_fields resource_url_def render_defs)

subsection \<open>The metadata cache\<close>

lemma cacheKey_inj [simp]: "(cacheKey p = cacheKey q) = (p = q)"
  by (simp add: cacheKey_def)

lemma probes_cache_upd [simp]: "probes (f\<lparr>cache := c\<rparr>) p = probes f p"
  by (simp add: probes_def resource_url_def)

lemma probes_fetch:
  "probes (snd (fetch e f q)) p
     = probes f p
       + (if req_method q = HEAD \<and> req_url q = resource_url f p
             \<and> req_range q = Some ''bytes=0-1'' then 1 else 0)"
  by (simp add: probes_def fetch_def resource_url_def)

text \<open>
  One call run without interruption is the call, followed by its steps, in the session.
\<close>

lemma getMetadata_uninterrupted:
  assumes "cache f (cacheKey p) = None"
  shows "drive 3 e
           (snd (fetch e f \<lparr>req_method = HEAD, req_url = resource_url f p,
                             req_range = Some ''bytes=0-1''\<rparr>))
           (AwaitProbe p
              (fst (fetch e f \<lparr>req_method = HEAD, req_url = resource_url f p,
                                req_range = Some ''bytes=0-1''\<rparr>)))
         = Some (getMetadata e f p)"
  using assms
  by (simp add: numeral_3_eq_3 getMetadata_def getAudioDuration_def fetchRange_def
        estimateDurationFromSize_def fetch_def finish_def resource_url_def Let_def
        split: sum.splits option.splits decoded.splits)

lemma finish_cache:
  "cache (snd (finish f p r d)) k = (if k = cacheKey p then Some (metadata_of r d) else cache f k)"
  by (simp add: finish_def Let_def)

lemma finish_probes [simp]: "probes (snd (finish f p r d)) q = probes f q"
  by (simp add: finish_def Let_def)

lemma resume_cache:
  "k \<noteq> cacheKey (inflight_path c) \<Longrightarrow> cache (snd (resume e f c)) k = cache f k"
  by (cases c)
     (simp_all add: finish_cache fetch_def split: sum.splits decoded.splits)

lemma resume_path:
  "resume e f c = (Suspend c1, f1) \<Longrightarrow> inflight_path c1 = inflight_path c"
  by (cases c)
     (auto simp: finish_def fetch_def Let_def split: sum.splits decoded.splits if_splits)

lemma resume_success:
  "resume e f c = (Return (Inr m), f1) \<Longrightarrow> cache f1 (cacheKey (inflight_path c)) = Some m"
  by (cases c)
     (auto simp: finish_def fetch_def Let_def split: sum.splits decoded.splits if_splits)

lemma resume_probes: "probes (snd (resume e f c)) q = probes f q"
  by (cases c)
     (simp_all add: split_beta probes_fetch rangeHeader_def split: sum.splits decoded.splits)

lemma call_probes:
  "probes (the_fetcher (getMetadata_call e s p)) p
     = probes (the_fetcher s) p + (if cache (the_fetcher s) (cacheKey p) = None then 1 else 0)"
  by (simp add: getMetadata_call_def split_beta probes_fetch split: option.splits)

lemma resume_call_probes:
  "probes (the_fetcher (resume_call e s i)) q = probes (the_fetcher s) q"
proof (cases "resume e (the_fetcher s) (inflight s ! i)")
  case (Pair pr f1)
  with resume_probes [of e "the_fetcher s" "inflight s ! i" q]
  have "probes f1 q = probes (the_fetcher s) q" by simp
  with Pair show ?thesis by (simp add: resume_call_def split: progress.splits)
qed

lemma call_hit:
  "cache (the_fetcher s) (cacheKey p) = Some m
   \<Longrightarrow> getMetadata_call e s p = s\<lparr>returned := returned s @ [(p, Inr m)]\<rparr>"
  by (simp add: getMetadata_call_def)

lemma call_keeps:
  assumes "cache (the_fetcher s) (cacheKey p) = Some m"
    and "p \<notin> set (map inflight_path (inflight s))"
  shows "cache (the_fetcher (getMetadata_call e s q)) (cacheKey p) = Some m
       \<and> p \<notin> set (map inflight_path (inflight (getMetadata_call e s q)))"
  using assms
  by (cases "cache (the_fetcher s) (cacheKey q)")
     (auto simp: getMetadata_call_def fetch_def)

lemma resume_call_keeps:
  assumes "cache (the_fetcher s) (cacheKey p) = Some m"
    and "p \<notin> set (map inflight_path (inflight s))"
  shows "cache (the_fetcher (resume_call e s i)) (cacheKey p) = Some m
       \<and> p \<notin> set (map inflight_path (inflight (resume_call e s i)))"
proof (cases "i < length (inflight s)")
  case False
  with assms show ?thesis by (simp add: resume_call_def)
next
  case True
  let ?c = "inflight s ! i"
  from True have "?c \<in> set (inflight s)" by simp
  with assms(2) have other: "inflight_path ?c \<noteq> p" by auto
  then have c: "cache (snd (resume e (the_fetcher s) ?c)) (cacheKey p) = Some m"
    using assms(1) by (simp add: resume_cache)
  show ?thesis
  proof (cases "resume e (the_fetcher s) ?c")
    case (Pair pr f1)
    show ?thesis
    proof (cases pr)
      case (Return res)
      have "set (take i (inflight s) @ drop (Suc i) (inflight s)) \<subseteq> set (inflight s)"
        using set_take_subset [of i "inflight s"] set_drop_subset [of "Suc i" "inflight s"]
        by auto
      with assms(2) have "p \<notin> inflight_path ` set (take i (inflight s) @ drop (Suc i) (inflight s))"
        by auto
      with True Pair Return c show ?thesis
        by (auto simp: resume_call_def)
    next
      case (Suspend c1)
      with Pair have "inflight_path c1 = inflight_path ?c"
        by (simp add: resume_path)
      with other have "inflight_path c1 \<noteq> p" by simp
      moreover have "set ((inflight s)[i := c1]) \<subseteq> insert c1 (set (inflight s))"
        by (rule set_update_subset_insert)
      ultimately have "p \<notin> inflight_path ` set ((inflight s)[i := c1])"
        using assms(2) by auto
      with True Pair Suspend c show ?thesis
        by (auto simp: resume_call_def)
    qed
  qed
qed

lemma step_keeps:
  assumes "cache (the_fetcher s) (cacheKey p) = Some m"
    and "p \<notin> set (map inflight_path (inflight s))"
    and "\<not> is_clear ev"
  shows "cache (the_fetcher (session_step e s ev)) (cacheKey p) = Some m
       \<and> p \<notin> set (map inflight_path (inflight (session_step e s ev)))"
proof (cases ev)
  case (CallGetMetadata q)
  with assms show ?thesis using call_keeps [of s p m e q] by simp
next
  case (Resume i)
  with assms show ?thesis using resume_call_keeps [of s p m e i] by simp
next
  case (SendRequest q)
  with assms show ?thesis by simp
next
  case CallClearCache
  with assms show ?thesis by simp
qed

lemma run_keeps:
  assumes "cache (the_fetcher s) (cacheKey p) = Some m"
    and "p \<notin> set (map inflight_path (inflight s))"
    and "\<not> list_ex is_clear evs"
  shows "cache (the_fetcher (session_run e s evs)) (cacheKey p) = Some m"
  using assms
proof (induction evs arbitrary: s)
  case Nil
  then show ?case by simp
next
  case (Cons ev evs)
  from Cons.prems have "\<not> is_clear ev" "\<not> list_ex is_clear evs" by simp_all
  with Cons.prems step_keeps [of s p m ev e] Cons.IH [of "session_step e s ev"]
  show ?case by simp
qed

lemma step_returned_cached:
  assumes "returned (session_step e s ev) = returned s @ [(p, Inr m)]"
  shows "cache (the_fetcher (session_step e s ev)) (cacheKey p) = Some m"
proof (cases ev)
  case (CallGetMetadata q)
  with assms show ?thesis
    by (cases "cache (the_fetcher s) (cacheKey q)")
       (auto simp: getMetadata_call_def fetch_def)
next
  case (Resume i)
  show ?thesis
  proof (cases "i < length (inflight s)")
    case False
    with assms Resume show ?thesis by (simp add: resume_call_def)
  next
    case True
    obtain pr f1 where r: "resume e (the_fetcher s) (inflight s ! i) = (pr, f1)"
      by (cases "resume e (the_fetcher s) (inflight s ! i)")
    show ?thesis
    proof (cases pr)
      case (Return res)
      with assms Resume True r have "inflight_path (inflight s ! i) = p" "res = Inr m"
        by (simp_all add: resume_call_def)
      with r Return have "cache f1 (cacheKey p) = Some m"
        using resume_success [of e "the_fetcher s" "inflight s ! i" m f1] by simp
      with Resume True r Return show ?thesis by (simp add: resume_call_def)
    next
      case (Suspend c1)
      with assms Resume True r show ?thesis by (simp add: resume_call_def)
    qed
  qed
next
  case (SendRequest q)
  with assms show ?thesis by simp
next
  case CallClearCache
  with assms show ?thesis by simp
qed

lemmas session_defs =
  new_session_def flaky_env_def getMetadata_call_def resume_call_def finish_def fetch_def
  metadata_of_def demo_response_def rangeHeader_def resource_url_def cacheKey_def ok_def
  audioFetcher_def new_fetcher_def Let_def

text \<open>
  C7, as stated, fails. Two calls for \<^verbatim>\<open>a.mp3\<close> overlap on a server whose file
  changes. The first returns a size of 1000 bytes and a third call gets the same from
  the cache; then the second call, in flight since before, returns and sets the entry
  to 1001 bytes, and a fourth call gets 1001 from the cache. No \<open>clearCache\<close> was
  called, and two probes were sent.
\<close>

theorem overlapping_calls_counterexample:
  "returned (session_run drifting_env new_session overlap_events)
     = [(''a.mp3'', Inr (demo_meta 200 1000)), (''a.mp3'', Inr (demo_meta 200 1000)),
        (''a.mp3'', Inr (demo_meta 200 1001)), (''a.mp3'', Inr (demo_meta 200 1001))]
   \<and> \<not> list_ex is_clear overlap_events
   \<and> probes (the_fetcher (session_run drifting_env new_session overlap_events)) ''a.mp3'' = 2"
  by (simp add: overlap_events_def new_session_def drifting_env_def getMetadata_call_def
        resume_call_def finish_def fetch_def metadata_of_def demo_meta_def probes_def
        rangeHeader_def resource_url_def cacheKey_def ok_def audioFetcher_def new_fetcher_def
        render_defs Let_def)

text \<open>
  C7, amended. Once a call of \<open>getMetadata\<close> for a path has returned metadata and no
  other call for that path is in flight, then after any further events of the session
  other than \<open>clearCache\<close> a call for that path returns the same metadata and changes
  nothing else, so it sends no request. A call sends one probe when it misses the
  cache and none when it hits, and the steps that continue a call send none: two
  calls, the second made after the first has returned, send exactly one probe.
\<close>

theorem cached_metadata_stable:
  assumes "returned (session_step e s0 ev) = returned s0 @ [(p, Inr m)]"
    and "p \<notin> set (map inflight_path (inflight (session_step e s0 ev)))"
    and "\<not> list_ex is_clear evs"
  shows "getMetadata_call e (session_run e (session_step e s0 ev) evs) p
           = (session_run e (session_step e s0 ev) evs)
               \<lparr>returned := returned (session_run e (session_step e s0 ev) evs) @ [(p, Inr m)]\<rparr>
       \<and> probes (the_fetcher (getMetadata_call e s q)) q
           = probes (the_fetcher s) q
             + (if cache (the_fetcher s) (cacheKey q) = None then 1 else 0)
       \<and> probes (the_fetcher (resume_call e s i)) q = probes (the_fetcher s) q"
proof -
  from assms(1) have "cache (the_fetcher (session_step e s0 ev)) (cacheKey p) = Some m"
    by (rule step_returned_cached)
  with assms(2,3)
  have "cache (the_fetcher (session_run e (session_step e s0 ev) evs)) (cacheKey p) = Some m"
    by (simp add: run_keeps)
  then show ?thesis
    by (simp add: call_hit call_probes resume_call_probes)
qed

text \<open>
  The first call for \<^verbatim>\<open>a.mp3\<close> returns; the server then refuses everything, a call
  for \<^verbatim>\<open>b.mp3\<close> fails, and a call for \<^verbatim>\<open>a.mp3\<close> still returns the cached metadata,
  with one probe for \<^verbatim>\<open>a.mp3\<close> sent in all.
\<close>

theorem cached_metadata_stable_witness:
  "returned (session_step flaky_env warm_session (Resume 0)) = [(''a.mp3'', Inr meta_a)]
   \<and> inflight (session_step flaky_env warm_session (Resume 0)) = []
   \<and> returned
        (getMetadata_call flaky_env
           (session_run flaky_env (session_step flaky_env warm_session (Resume 0)) later_events)
           ''a.mp3'')
     = [(''a.mp3'', Inr meta_a),
        (''b.mp3'', Inl (JsError ''Failed to fetch metadata: 404'')),
        (''a.mp3'', Inr meta_a)]
   \<and> probes
        (the_fetcher
           (getMetadata_call flaky_env
              (session_run flaky_env (session_step flaky_env warm_session (Resume 0))
                 later_events)
              ''a.mp3''))
        ''a.mp3'' = 1"
proof -
  let ?s1 = "session_step flaky_env warm_session (Resume 0)"
  let ?s2 = "session_run flaky_env ?s1 later_events"
  have w: "returned warm_session = []" "length (inflight warm_session) = 1"
    by (simp_all add: warm_session_def session_defs render_defs)
  have r1: "returned ?s1 = [(''a.mp3'', Inr meta_a)]" and i1: "inflight ?s1 = []"
    by (simp_all add: warm_session_def session_defs render_defs meta_a_def demo_meta_def)
  have h1: "returned ?s1 = returned warm_session @ [(''a.mp3'', Inr meta_a)]"
    using r1 w by simp
  have h2: "''a.mp3'' \<notin> set (map inflight_path (inflight ?s1))"
    using i1 by simp
  have h3: "\<not> list_ex is_clear later_events"
    by (simp add: later_events_def)
  have r2: "returned ?s2
              = [(''a.mp3'', Inr meta_a),
                 (''b.mp3'', Inl (JsError ''Failed to fetch metadata: 404''))]"
    by (simp add: warm_session_def later_events_def session_defs render_defs meta_a_def
          demo_meta_def)
  have p2: "probes (the_fetcher ?s2) ''a.mp3'' = 1"
    by (simp add: warm_session_def later_events_def session_defs render_defs probes_def)
  from cached_metadata_stable [OF h1 h2 h3]
  have hit: "getMetadata_call flaky_env ?s2 ''a.mp3''
               = ?s2\<lparr>returned := returned ?s2 @ [(''a.mp3'', Inr meta_a)]\<rparr>"
    by simp
  show ?thesis
    using hit r1 i1 r2 p2 by simp
qed


section \<open>Loading, switching and seeking in the hook\<close>

lemma track_at_demo: "track_at demo_tracks 0 = ''a.mp3''" "track_at demo_tracks 1 = ''b.mp3''"
  by (simp_all add: track_at_def demo_tracks_def)

subsection \<open>The window preloaded by a seek\<close>

text \<open>
  For a target \<open>t\<close> within the duration, the window that \<open>handleSeek\<close> asks for is
  placed at byte \<open>\<lfloor>t\<rfloor> * 1024 * 1024\<close>; the duration does not enter, and the size only
  bounds the end.
\<close>

lemma handleSeek_window:
  assumes "audioRef s = Some a" and "metadataRef s = Some m"
    and "0 \<le> t" and "t \<le> duration s"
  shows "pending (handleSeek tracks s t)
           = (if preloaded_has s (track_at tracks (currentTrack s))
                   \<lparr>r_start = max 0 (\<lfloor>t\<rfloor> * 1048576 - 524288),
                    r_end = min (md_size m) (\<lfloor>t\<rfloor> * 1048576 + 1048576)\<rparr>
              then pending s
              else pending s
                   @ [PreloadAwait (track_at tracks (currentTrack s))
                        \<lparr>r_start = max 0 (\<lfloor>t\<rfloor> * 1048576 - 524288),
                         r_end = min (md_size m) (\<lfloor>t\<rfloor> * 1048576 + 1048576)\<rparr>])"
  using assms
  by (simp add: handleSeek_def Let_def preloadRange_def max_absorb2 min_absorb1 mult.commute)

text \<open>
  C1, on the code. On the loaded 200-second, 5,000,000-byte track \<^verbatim>\<open>a.mp3\<close>,
  \<open>handleSeek\<close> to 150 seconds takes \<open>150 * 1024 * 1024\<close> as the byte offset: the
  preload it issues is for the window from byte 156,762,112 to byte 5,000,000, which
  starts beyond the end of the file and after its own end, and the fetcher sends it as
  \<^verbatim>\<open>Range: bytes=156762112-5000000\<close>. The offset 150 / 200 * 5,000,000 = 3,750,000 of
  the claim plays no part.
\<close>

theorem seek_150_window:
  "pending (handleSeek demo_tracks (loaded demo_tracks meta_a) 150)
     = [PreloadAwait ''a.mp3'' \<lparr>r_start = 156762112, r_end = 5000000\<rparr>]
   \<and> map_option (\<lambda>x. requests (snd x))
        (awaited (demo_env 206 (Some ''bytes'')) audioFetcher
           (PreloadAwait ''a.mp3'' \<lparr>r_start = 156762112, r_end = 5000000\<rparr>))
     = Some [\<lparr>req_method = GET, req_url = ''/api/audio/a.mp3'',
              req_range = Some ''bytes=156762112-5000000''\<rparr>]
   \<and> md_size meta_a = 5000000 \<and> md_duration meta_a = 200"
  by (simp add: loaded_fields handleSeek_def Let_def preloadRange_def preloaded_has_def
        rangeKey_def track_at_demo meta_a_def demo_meta_def render_defs
        audioFetcher_preloadRange_def split_beta to_RangeRequest_def rangeHeader_def
        resource_url_def audioFetcher_def new_fetcher_def split: sum.splits)

subsection \<open>A load that resolves after a track switch\<close>

text \<open>
  C3, on the code. The load of \<^verbatim>\<open>a.mp3\<close> is in flight when \<^verbatim>\<open>next()\<close> moves to
  \<^verbatim>\<open>b.mp3\<close>; the load of \<^verbatim>\<open>b.mp3\<close> resolves first, then that of \<^verbatim>\<open>a.mp3\<close>. The
  current track is then \<^verbatim>\<open>b.mp3\<close>, while the duration, the metadata reference and
  the source of the audio element are those of \<^verbatim>\<open>a.mp3\<close>, and the blob of \<^verbatim>\<open>b.mp3\<close>
  has been revoked: no continuation of \<open>loadTrack\<close> checks the current track.
\<close>

theorem stale_load_overwrites:
  "currentTrack (final demo_tracks initial_player stale_events) = 1
   \<and> track_at demo_tracks 1 = ''b.mp3''
   \<and> duration (final demo_tracks initial_player stale_events) = md_duration meta_a
   \<and> metadataRef (final demo_tracks initial_player stale_events) = Some meta_a
   \<and> map_option src (audioRef (final demo_tracks initial_player stale_events)) = Some ''blob:a''
   \<and> revoked (final demo_tracks initial_player stale_events) = [''blob:b'']
   \<and> meta_a \<noteq> meta_b"
  by (simp add: stale_events_def hook_defs render_defs track_at_def Let_def
        signed_modulo_int_def demo_tracks_def meta_a_def meta_b_def demo_meta_def)

subsection \<open>Failures while loading\<close>

text \<open>
  C5, as stated, fails. When the metadata and the streaming blob arrive and the preload
  of the first megabyte is rejected, no error is recorded and \<open>isLoading\<close> is still
  true, with nothing left pending.
\<close>

theorem preload_failure_counterexample:
  "error (final demo_tracks initial_player preload_fails) = None
   \<and> isLoading (final demo_tracks initial_player preload_fails)
   \<and> pending (final demo_tracks initial_player preload_fails) = []"
  by (simp add: preload_fails_def hook_defs render_defs track_at_demo Let_def)

subsection \<open>The order of a track switch\<close>

text \<open>The order of the specification is met by a trace that loads before it plays.\<close>

lemma playing_after_loading_accepts:
  "playing_after_loading 0
     [initial_player\<lparr>isLoading := True\<rparr>, initial_player, initial_player\<lparr>isPlaying := True\<rparr>]"
  by (simp add: initial_player_def)





text \<open>
  C5, amended. When the metadata fetch or the creation of the streaming blob of a
  load is rejected, \<open>error\<close> becomes \<^verbatim>\<open>Failed to load track: \<close> followed by the
  rejection rendered as text, and \<open>isLoading\<close> becomes false. When a preload is
  rejected, \<open>error\<close>, \<open>isLoading\<close> and the set of preloaded ranges stay as they are.
\<close>

theorem load_failures:
  assumes "i < length (pending s)"
  shows "(pending s ! i = LoadAwaitMetadata p \<or> pending s ! i = LoadAwaitBlob p \<longrightarrow>
            error (settle s i (Rejected err))
              = Some (''Failed to load track: '' @ error_string err)
            \<and> \<not> isLoading (settle s i (Rejected err)))
       \<and> (pending s ! i = PreloadAwait p r \<longrightarrow>
            error (settle s i (Rejected err)) = error s
            \<and> isLoading (settle s i (Rejected err)) = isLoading s
            \<and> preloadedRanges (settle s i (Rejected err)) = preloadedRanges s)"
  using assms
  by (auto simp: settle_def loadTrack_metadata_def loadTrack_blob_def loadTrack_catch_def
        preloadRange_settled_def)

text \<open>A 404 on the metadata, a network failure on the blob, a 500 on the preload.\<close>

theorem load_failures_witness:
  "error (final demo_tracks initial_player
            [Mount, Settle 0 (Rejected (JsError ''Failed to fetch metadata: 404''))])
     = Some ''Failed to load track: Error: Failed to fetch metadata: 404''
   \<and> \<not> isLoading (final demo_tracks initial_player
            [Mount, Settle 0 (Rejected (JsError ''Failed to fetch metadata: 404''))])
   \<and> error (final demo_tracks initial_player
            [Mount, Settle 0 (GotMetadata meta_a), Settle 0 (Rejected (TypeError ''Failed to fetch''))])
     = Some ''Failed to load track: TypeError: Failed to fetch''
   \<and> \<not> isLoading (final demo_tracks initial_player
            [Mount, Settle 0 (GotMetadata meta_a), Settle 0 (Rejected (TypeError ''Failed to fetch''))])
   \<and> error (final demo_tracks initial_player preload_fails) = None"
proof -
  let ?s1 = "final demo_tracks initial_player [Mount]"
  let ?s2 = "final demo_tracks initial_player [Mount, Settle 0 (GotMetadata meta_a)]"
  let ?s3 = "final demo_tracks initial_player
               [Mount, Settle 0 (GotMetadata meta_a), Settle 0 (GotBlob ''blob:0'')]"
  have p1: "pending ?s1 = [LoadAwaitMetadata ''a.mp3'']"
    by (simp add: hook_defs track_at_def demo_tracks_def)
  have p2: "pending ?s2 = [LoadAwaitBlob ''a.mp3'']"
    by (simp add: hook_defs track_at_def demo_tracks_def)
  have p3: "pending ?s3 = [PreloadAwait ''a.mp3'' \<lparr>r_start = 0, r_end = 1048576\<rparr>]"
           "error ?s3 = None"
    by (simp_all add: hook_defs track_at_def demo_tracks_def Let_def)
  have l1: "0 < length (pending ?s1)" using p1 by simp
  have l2: "0 < length (pending ?s2)" using p2 by simp
  have l3: "0 < length (pending ?s3)" using p3 by simp
  have e1: "final demo_tracks initial_player
              [Mount, Settle 0 (Rejected (JsError ''Failed to fetch metadata: 404''))]
            = settle ?s1 0 (Rejected (JsError ''Failed to fetch metadata: 404''))"
    by (simp add: final_def)
  have e2: "final demo_tracks initial_player
              [Mount, Settle 0 (GotMetadata meta_a), Settle 0 (Rejected (TypeError ''Failed to fetch''))]
            = settle ?s2 0 (Rejected (TypeError ''Failed to fetch''))"
    by (simp add: final_def)
  have e3: "final demo_tracks initial_player preload_fails
            = settle ?s3 0 (Rejected (JsError ''Range request failed: 500''))"
    by (simp add: final_def preload_fails_def)
  show ?thesis
    using load_failures [OF l1, where p = "''a.mp3''"
                           and err = "JsError ''Failed to fetch metadata: 404''"]
          load_failures [OF l2, where p = "''a.mp3''" and err = "TypeError ''Failed to fetch''"]
          load_failures [OF l3, where p = "''a.mp3''"
                           and r = "\<lparr>r_start = 0, r_end = 1048576\<rparr>"
                           and err = "JsError ''Range request failed: 500''"]
          p1 p2 p3
    by (simp add: e1 e2 e3 error_string_def)
qed

end
